theory Spec2Isabelle
  imports Complex_Main
begin

section \<open>Python values held by the application configuration\<close>

text \<open>
  The configuration of \<^verbatim>\<open>app.py\<close> is a Flask \<^verbatim>\<open>Config\<close>, a dictionary from
  configuration names to Python values. The values that YAML, JSON and the code itself put
  there are modelled by \<open>pyval\<close>. A finite float is represented by the rational it denotes,
  the two infinities and NaN by constructors of their own; the code only tests numbers for
  truth and hands them on, it never computes with them.
\<close>

datatype pyval =
    PyNone
  | PyBool bool
  | PyInt int
  | PyFloat rat
  | PyPosInf
  | PyNegInf
  | PyNaN
  | PyStr string
  | PyList "pyval list"
  | PySet "pyval list"
  | PyDict "(string \<times> pyval) list"

datatype error =
    Exception string
  | KeyError string
  | ValueError string
  | TypeError string

text \<open>Python's truth value of an object, as used by \<^verbatim>\<open>if\<close>, \<^verbatim>\<open>and\<close> and \<^verbatim>\<open>or\<close>.\<close>

fun truthy :: "pyval \<Rightarrow> bool" where
  "truthy PyNone = False"
| "truthy (PyBool b) = b"
| "truthy (PyInt i) = (i \<noteq> 0)"
| "truthy (PyFloat r) = (r \<noteq> 0)"
| "truthy PyPosInf = True"
| "truthy PyNegInf = True"
| "truthy PyNaN = True"
| "truthy (PyStr s) = (s \<noteq> [])"
| "truthy (PyList xs) = (xs \<noteq> [])"
| "truthy (PySet xs) = (xs \<noteq> [])"
| "truthy (PyDict kvs) = (kvs \<noteq> [])"

text \<open>\<^verbatim>\<open>a or b\<close>: the first operand when it is true, the second otherwise.\<close>

definition py_or :: "pyval \<Rightarrow> pyval \<Rightarrow> pyval" where
  "py_or a b = (if truthy a then a else b)"

text \<open>\<^verbatim>\<open>v != "text"\<close> for a string literal: an object of another type is never equal to it.\<close>

definition ne_str :: "pyval \<Rightarrow> string \<Rightarrow> bool" where
  "ne_str v s = (case v of PyStr t \<Rightarrow> t \<noteq> s | _ \<Rightarrow> True)"

type_synonym app_config = "string \<rightharpoonup> pyval"

text \<open>\<^verbatim>\<open>app.config.get(k)\<close>, \<^verbatim>\<open>app.config.get(k, d)\<close> and \<^verbatim>\<open>app.config[k]\<close>.\<close>

definition config_get :: "app_config \<Rightarrow> string \<Rightarrow> pyval" where
  "config_get c k = (case c k of None \<Rightarrow> PyNone | Some v \<Rightarrow> v)"

definition config_get_default :: "app_config \<Rightarrow> string \<Rightarrow> pyval \<Rightarrow> pyval" where
  "config_get_default c k d = (case c k of None \<Rightarrow> d | Some v \<Rightarrow> v)"

definition config_item :: "app_config \<Rightarrow> string \<Rightarrow> error + pyval" where
  "config_item c k = (case c k of None \<Rightarrow> Inl (KeyError k) | Some v \<Rightarrow> Inr v)"

text \<open>\<^verbatim>\<open>str.split()\<close> without arguments: the maximal runs of non-whitespace characters.\<close>

definition is_space :: "char \<Rightarrow> bool" where
  "is_space c = (c \<in> set [CHR '' '', CHR 0x09, CHR 0x0A, CHR 0x0B, CHR 0x0C, CHR 0x0D])"

fun split_ws :: "string \<Rightarrow> string \<Rightarrow> string list" where
  "split_ws w [] = (if w = [] then [] else [w])"
| "split_ws w (c # cs) =
     (if is_space c then (if w = [] then split_ws [] cs else w # split_ws [] cs)
      else split_ws (w @ [c]) cs)"

definition py_split :: "string \<Rightarrow> string list" where
  "py_split s = split_ws [] s"

section \<open>The start-up script\<close>

text \<open>
  The state that lines 104 to 154 of \<^verbatim>\<open>app.py\<close> act on: the configuration dictionary, the
  proxy wrapper installed around the WSGI application (its \<^verbatim>\<open>num_proxies\<close>, if any), and
  the calls made to \<^verbatim>\<open>registry_model.setup_split\<close>, in order, each with its four arguments.
\<close>

record app_state =
  config :: app_config
  proxy_fix :: "pyval option"
  split_calls :: "(pyval \<times> pyval \<times> pyval \<times> pyval) list"

text \<open>
  What the script calls but does not define: \<^verbatim>\<open>json.loads\<close>; \<^verbatim>\<open>dict.update\<close> on an
  argument that is not a mapping (the sequence-of-pairs protocol), with the dictionary it
  leaves behind and the exception it raised, if any; whether \<^verbatim>\<open>registry_model.setup_split\<close>
  raises on its arguments; and the value \<^verbatim>\<open>generate_secret_key()\<close> returns. They are
  parameters of the model.
\<close>

record externals =
  json_loads :: "string \<Rightarrow> error + pyval"
  update_from_iterable :: "app_config \<Rightarrow> pyval \<Rightarrow> error option \<times> app_config"
  setup_split :: "pyval \<times> pyval \<times> pyval \<times> pyval \<Rightarrow> error option"
  generate_secret_key :: pyval

text \<open>
  A step of the script either raises, which ends the start-up with the exception and the state
  reached at that point, or hands the next state on.
\<close>

type_synonym outcome = "(error \<times> app_state) + app_state"

definition andthen :: "outcome \<Rightarrow> (app_state \<Rightarrow> outcome) \<Rightarrow> outcome" where
  "andthen r f = (case r of Inl e \<Rightarrow> Inl e | Inr s \<Rightarrow> f s)"

definition OVERRIDE_CONFIG_KEY :: string where
  "OVERRIDE_CONFIG_KEY = ''QUAY_OVERRIDE_CONFIG''"

text \<open>\<^verbatim>\<open>app.config.update(d)\<close>: a dictionary's items are stored one after the other.\<close>

definition dict_update :: "externals \<Rightarrow> app_config \<Rightarrow> pyval \<Rightarrow> error option \<times> app_config" where
  "dict_update ext c v =
     (case v of
        PyDict kvs \<Rightarrow> (None, fold (\<lambda>(k, x) m. m(k \<mapsto> x)) kvs c)
      | _ \<Rightarrow> update_from_iterable ext c v)"

text \<open>
  Lines 104 to 106:
  \<^verbatim>\<open>environ_config = json.loads(os.environ.get(OVERRIDE_CONFIG_KEY, "{}"))\<close>,
  \<^verbatim>\<open>app.config.update(environ_config)\<close>.
\<close>

definition environ_override :: "externals \<Rightarrow> (string \<rightharpoonup> string) \<Rightarrow> app_state \<Rightarrow> outcome" where
  "environ_override ext environ s =
     (case json_loads ext (case environ OVERRIDE_CONFIG_KEY of None \<Rightarrow> ''{}'' | Some t \<Rightarrow> t) of
        Inl e \<Rightarrow> Inl (e, s)
      | Inr environ_config \<Rightarrow>
          (case dict_update ext (config s) environ_config of
             (Some e, c) \<Rightarrow> Inl (e, s\<lparr>config := c\<rparr>)
           | (None, c) \<Rightarrow> Inr (s\<lparr>config := c\<rparr>)))"

text \<open>
  Lines 108 to 110: \<^verbatim>\<open>if app.config.get("PROXY_COUNT", 1):\<close> wrap the WSGI application.
\<close>

definition fix_remote_address :: "app_state \<Rightarrow> outcome" where
  "fix_remote_address s =
     (if truthy (config_get_default (config s) ''PROXY_COUNT'' (PyInt 1))
      then Inr (s\<lparr>proxy_fix := Some (config_get_default (config s) ''PROXY_COUNT'' (PyInt 1))\<rparr>)
      else Inr s)"

definition missing_mode_message :: string where
  "missing_mode_message =
     ''Configuration flag `V3_UPGRADE_MODE` must be set. Please check the upgrade docs''"

definition invalid_mode_message :: string where
  "invalid_mode_message =
     ''Invalid value for config `V3_UPGRADE_MODE`. Please check the upgrade docs''"

text \<open>Lines 112 to 128: the check of the V3 upgrade key.\<close>

definition check_v3_upgrade_mode :: "bool \<Rightarrow> bool \<Rightarrow> app_state \<Rightarrow> outcome" where
  "check_v3_upgrade_mode is_testing is_building s =
     (if \<not> is_testing \<and> \<not> is_building
         \<and> truthy (config_get_default (config s) ''SETUP_COMPLETE'' (PyBool False))
      then
        (let v3_upgrade_mode = config_get (config s) ''V3_UPGRADE_MODE'' in
         if v3_upgrade_mode = PyNone then Inl (Exception missing_mode_message, s)
         else if ne_str v3_upgrade_mode ''background''
               \<and> ne_str v3_upgrade_mode ''complete''
               \<and> ne_str v3_upgrade_mode ''production-transition''
               \<and> ne_str v3_upgrade_mode ''post-oci-rollout''
               \<and> ne_str v3_upgrade_mode ''post-oci-roll-back-compat''
         then Inl (Exception invalid_mode_message, s)
         else Inr s)
      else Inr s)"

text \<open>Lines 130 to 137: the split of the registry model.\<close>

definition split_arguments :: "app_config \<Rightarrow> pyval \<times> pyval \<times> pyval \<times> pyval" where
  "split_arguments c =
     (py_or (config_get c ''OCI_NAMESPACE_PROPORTION'') (PyInt 0),
      py_or (config_get c ''OCI_NAMESPACE_WHITELIST'') (PySet []),
      py_or (config_get c ''V22_NAMESPACE_WHITELIST'') (PySet []),
      config_get c ''V3_UPGRADE_MODE'')"

definition split_registry_model :: "externals \<Rightarrow> app_state \<Rightarrow> outcome" where
  "split_registry_model ext s =
     (let args = split_arguments (config s);
          s' = s\<lparr>split_calls := split_calls s @ [args]\<rparr>
      in case setup_split ext args of Some e \<Rightarrow> Inl (e, s') | None \<Rightarrow> Inr s')"

text \<open>Lines 139 to 142: the storage preference of the local instance.\<close>

definition storage_preference :: "(string \<rightharpoonup> string) \<Rightarrow> app_state \<Rightarrow> outcome" where
  "storage_preference environ s =
     (let pref = py_split (case environ ''QUAY_DISTRIBUTED_STORAGE_PREFERENCE'' of
                             None \<Rightarrow> [] | Some t \<Rightarrow> t)
      in if pref \<noteq> []
         then Inr (s\<lparr>config := (config s)(''DISTRIBUTED_STORAGE_PREFERENCE'' \<mapsto> PyList (map PyStr pref))\<rparr>)
         else Inr s)"

text \<open>Lines 144 to 147: \<^verbatim>\<open>if app.config["SECRET_KEY"] is None:\<close> generate one.\<close>

definition secret_key :: "externals \<Rightarrow> app_state \<Rightarrow> outcome" where
  "secret_key ext s =
     (case config_item (config s) ''SECRET_KEY'' of
        Inl e \<Rightarrow> Inl (e, s)
      | Inr v \<Rightarrow>
          (if v = PyNone
           then Inr (s\<lparr>config := (config s)(''SECRET_KEY'' \<mapsto> generate_secret_key ext)\<rparr>)
           else Inr s))"

text \<open>Lines 149 to 154: a secure session cookie when the preferred scheme is https.\<close>

definition session_cookie :: "app_state \<Rightarrow> outcome" where
  "session_cookie s =
     (case config_item (config s) ''PREFERRED_URL_SCHEME'' of
        Inl e \<Rightarrow> Inl (e, s)
      | Inr v \<Rightarrow>
          (if v = PyStr ''https''
              \<and> \<not> truthy (config_get_default (config s) ''FORCE_NONSECURE_SESSION_COOKIE'' (PyBool False))
           then Inr (s\<lparr>config := (config s)(''SESSION_COOKIE_SECURE'' \<mapsto> PyBool True)\<rparr>)
           else Inr s))"

text \<open>
  The script from line 104 to line 154, run on the configuration \<open>c\<close> that the file-based
  loading of lines 89 to 102 has produced.
\<close>

definition initial_state :: "app_config \<Rightarrow> app_state" where
  "initial_state c = \<lparr>config = c, proxy_fix = None, split_calls = []\<rparr>"

definition startup ::
  "externals \<Rightarrow> bool \<Rightarrow> bool \<Rightarrow> (string \<rightharpoonup> string) \<Rightarrow> app_config \<Rightarrow> outcome" where
  "startup ext is_testing is_building environ c =
     andthen (andthen (andthen (andthen (andthen (andthen
       (environ_override ext environ (initial_state c))
       fix_remote_address)
       (check_v3_upgrade_mode is_testing is_building))
       (split_registry_model ext))
       (storage_preference environ))
       (secret_key ext))
       session_cookie"

text \<open>The state a start-up ends in, whether it raised or not.\<close>

definition final_state :: "outcome \<Rightarrow> app_state" where
  "final_state r = (case r of Inl (e, s) \<Rightarrow> s | Inr s \<Rightarrow> s)"

text \<open>
  Externals for running the script on concrete inputs: a JSON reader that knows the empty
  object and one object text, \<^verbatim>\<open>{"PROXY_COUNT": 0}\<close>, and takes every other text as
  malformed; a \<^verbatim>\<open>setup_split\<close> that returns normally; a fixed generated key. This reader
  yields objects only, so the sequence protocol of \<^verbatim>\<open>update\<close> is never entered with it.
\<close>

definition sample_override_text :: string where
  "sample_override_text = ''{'' @ [CHR 0x22] @ ''PROXY_COUNT'' @ [CHR 0x22] @ '': 0}''"

definition sample_externals :: externals where
  "sample_externals =
     \<lparr>json_loads = (\<lambda>t. if t = ''{}'' then Inr (PyDict [])
                        else if t = sample_override_text then Inr (PyDict [(''PROXY_COUNT'', PyInt 0)])
                        else Inl (ValueError ''No JSON object could be decoded'')),
      update_from_iterable = (\<lambda>c v. (Some (TypeError ''object is not iterable''), c)),
      setup_split = (\<lambda>args. None),
      generate_secret_key = PyStr ''generated-in-memory''\<rparr>"

section \<open>The routing controller behind \<^verbatim>\<open>registry_model\<close>\<close>

text \<open>
  The package \<^verbatim>\<open>data.registry_model\<close>, whose \<^verbatim>\<open>setup_split\<close> the script calls, is not
  among the sources. The decision function and its state machine are taken from the
  specification, sections 3 and 4.
\<close>

text \<open>
  Modelled from the spec: the model variants of section 3, which \<^verbatim>\<open>data.registry_model\<close>
  would define.
\<close>

datatype ModelVariant = Legacy | Modern

text \<open>
  Modelled from the spec: the five migration phases of section 3, which
  \<^verbatim>\<open>data.registry_model\<close> would define.
\<close>

datatype MigrationPhase =
  Background | ProductionTransition | PostCutoverRollout | Complete | RollbackCompat

text \<open>Modelled from the spec: the tenant identifier of section 3, an opaque string.\<close>

type_synonym TenantId = string

text \<open>
  Modelled from the spec: the rollout policy of section 3, a proportion and the two
  allow-lists.
\<close>

record RolloutPolicy =
  proportion :: rat
  modernOverrides :: "TenantId set"
  secondarySchemaOverrides :: "TenantId set"

text \<open>
  Modelled from the spec: the routing decision of section 3, the primary variant, the
  optional second variant of a dual write, and the read-translation flag.
\<close>

record RoutingDecision =
  primary :: ModelVariant
  secondary :: "ModelVariant option"
  readTranslation :: bool

text \<open>
  Modelled from the spec: \<open>decide\<close> of section 4.2. The classifier \<open>bucket\<close> of section 4.1
  is specified by its contract only and is a parameter.
\<close>

definition decide :: "(TenantId \<Rightarrow> rat) \<Rightarrow> RolloutPolicy \<Rightarrow> TenantId \<Rightarrow> ModelVariant" where
  "decide bucket p t =
     (if t \<in> modernOverrides p then Modern
      else if bucket t < proportion p then Modern else Legacy)"

text \<open>
  Modelled from the spec: the snapshot the router reads (sections 3 and 4.4), a policy and a
  phase. In phase \<open>RollbackCompat\<close> the writes stay as the prior phase dictated, so the
  snapshot also keeps that prior phase.
\<close>

record RoutingSnapshot =
  policy :: RolloutPolicy
  phase :: MigrationPhase
  prior :: MigrationPhase

text \<open>
  Modelled from the spec: the table of section 4.3, the effect of a phase on the base
  decision of the policy. (A snapshot in \<open>RollbackCompat\<close> with no earlier phase passes the
  base decision on.)
\<close>

fun phase_writes :: "MigrationPhase \<Rightarrow> ModelVariant \<Rightarrow> ModelVariant \<times> ModelVariant option" where
  "phase_writes Background d = (d, None)"
| "phase_writes ProductionTransition d =
     (if d = Modern then (Modern, Some Legacy) else (Legacy, None))"
| "phase_writes PostCutoverRollout d = (d, None)"
| "phase_writes Complete d = (Modern, None)"
| "phase_writes RollbackCompat d = (d, None)"

text \<open>Modelled from the spec: \<open>route\<close> of section 4.4, composing 4.2 and 4.3.\<close>

definition route :: "(TenantId \<Rightarrow> rat) \<Rightarrow> RoutingSnapshot \<Rightarrow> TenantId \<Rightarrow> RoutingDecision" where
  "route bucket snap t =
     (let d = decide bucket (policy snap) t;
          w = phase_writes (if phase snap = RollbackCompat then prior snap else phase snap) d
      in \<lparr>primary = fst w, secondary = snd w,
          readTranslation = (phase snap = RollbackCompat)\<rparr>)"

text \<open>
  Modelled from the spec: the transition rule of section 4.3. The chain
  \<open>Background\<close>, \<open>ProductionTransition\<close>, \<open>PostCutoverRollout\<close>, \<open>Complete\<close> may be
  followed forwards, also skipping; every phase may go to \<open>RollbackCompat\<close>;
  \<open>RollbackCompat\<close> recovers to \<open>ProductionTransition\<close> only. A reload that keeps the phase
  is not a transition and is allowed.
\<close>

fun legal_transition :: "MigrationPhase \<Rightarrow> MigrationPhase \<Rightarrow> bool" where
  "legal_transition a RollbackCompat = True"
| "legal_transition RollbackCompat b = (b = ProductionTransition)"
| "legal_transition Background b = True"
| "legal_transition ProductionTransition b = (b \<noteq> Background)"
| "legal_transition PostCutoverRollout b = (b = PostCutoverRollout \<or> b = Complete)"
| "legal_transition Complete b = (b = Complete)"

text \<open>
  Modelled from the spec: the configuration error of section 7, the only error a reload
  reports.
\<close>

datatype router_error = ConfigurationError

text \<open>
  Modelled from the spec: \<open>reload\<close> of section 4.4. It returns the error, if any, and the
  snapshot that is active afterwards: the new one, or the previous one when the requested
  transition is illegal.
\<close>

definition reload ::
  "RoutingSnapshot \<Rightarrow> RolloutPolicy \<Rightarrow> MigrationPhase \<Rightarrow> router_error option \<times> RoutingSnapshot" where
  "reload cur newPolicy newPhase =
     (if legal_transition (phase cur) newPhase
      then (None,
            \<lparr>policy = newPolicy, phase = newPhase,
             prior = (if newPhase = RollbackCompat
                      then (if phase cur = RollbackCompat then prior cur else phase cur)
                      else newPhase)\<rparr>)
      else (Some ConfigurationError, cur))"

text \<open>
  Modelled from the spec: the interval of section 3, "a rational number in [0, 1]", read on
  the numbers a configuration can hold; \<^verbatim>\<open>data.registry_model\<close>, which would check it, is
  not among the sources. A number below 0 or above 1, an infinity and NaN are outside the
  interval; the truth values are the numbers 1 and 0.
\<close>

fun out_of_range :: "pyval \<Rightarrow> bool" where
  "out_of_range (PyInt i) = (i < 0 \<or> 1 < i)"
| "out_of_range (PyFloat r) = (r < 0 \<or> 1 < r)"
| "out_of_range PyPosInf = True"
| "out_of_range PyNegInf = True"
| "out_of_range PyNaN = True"
| "out_of_range v = False"

text \<open>
  Modelled from the spec: \<^verbatim>\<open>registry_model.setup_split\<close>, which constructs the rollout
  policy from its arguments, is not among the sources. Sections 4.2 and 7 say of the
  construction that a proportion outside [0,1] is a configuration error and is rejected:
  whatever the other three arguments are, the call raises.
\<close>

definition rejects_out_of_range :: "externals \<Rightarrow> bool" where
  "rejects_out_of_range ext =
     (\<forall>p w v m. out_of_range p \<longrightarrow> setup_split ext (p, w, v, m) \<noteq> None)"

text \<open>
  Externals for concrete runs whose \<^verbatim>\<open>setup_split\<close> raises on a proportion outside the
  interval and returns normally otherwise.
\<close>

definition validating_externals :: externals where
  "validating_externals =
     sample_externals
       \<lparr>setup_split := (\<lambda>args. if out_of_range (fst args)
                                then Some (Exception ''ConfigurationError'') else None)\<rparr>"

section \<open>Properties of the start-up script\<close>

subsection \<open>Sequencing and the record of calls\<close>

lemma andthen_Inr [simp]: "andthen (Inr s) f = f s"
  by (simp add: andthen_def)

lemma andthen_Inl [simp]: "andthen (Inl e) f = Inl e"
  by (simp add: andthen_def)

lemma final_state_Inr [simp]: "final_state (Inr s) = s"
  by (simp add: final_state_def)

lemma final_state_Inl [simp]: "final_state (Inl (e, s)) = s"
  by (simp add: final_state_def)

lemma calls_andthen:
  assumes "\<And>s. split_calls (final_state (f s)) = split_calls s"
  shows "split_calls (final_state (andthen r f)) = split_calls (final_state r)"
  using assms by (cases r) auto

lemma calls_storage: "split_calls (final_state (storage_preference environ s)) = split_calls s"
  by (simp add: storage_preference_def Let_def)

lemma calls_secret: "split_calls (final_state (secret_key ext s)) = split_calls s"
  by (simp add: secret_key_def split: sum.splits)

lemma calls_cookie: "split_calls (final_state (session_cookie s)) = split_calls s"
  by (simp add: session_cookie_def split: sum.splits)

lemma environ_override_calls:
  "split_calls (final_state (environ_override ext environ s)) = split_calls s"
  by (simp add: environ_override_def split: sum.splits prod.splits option.splits)

lemma fix_remote_address_result:
  "\<exists>s'. fix_remote_address s = Inr s' \<and> config s' = config s \<and> split_calls s' = split_calls s"
  by (simp add: fix_remote_address_def)

lemma check_depends_on_config:
  "config s' = config s \<Longrightarrow>
   (check_v3_upgrade_mode t b s' = Inr s') = (check_v3_upgrade_mode t b s = Inr s)"
  by (simp add: check_v3_upgrade_mode_def Let_def)

lemma split_registry_model_calls:
  "split_calls (final_state (split_registry_model ext s)) = split_calls s @ [split_arguments (config s)]"
  by (simp add: split_registry_model_def Let_def split: option.splits)

lemma startup_calls_when_checked:
  assumes env: "environ_override ext environ (initial_state c) = Inr s"
    and chk: "check_v3_upgrade_mode is_testing is_building s = Inr s"
  shows "split_calls (final_state (startup ext is_testing is_building environ c))
         = [split_arguments (config s)]"
proof -
  obtain s2 where s2: "fix_remote_address s = Inr s2" "config s2 = config s"
    "split_calls s2 = split_calls s"
    using fix_remote_address_result by blast
  have calls: "split_calls s = []"
    using environ_override_calls [of ext environ "initial_state c"] env
    by (simp add: initial_state_def)
  have chk2: "check_v3_upgrade_mode is_testing is_building s2 = Inr s2"
    using chk check_depends_on_config [OF s2(2)] by simp
  have "split_calls (final_state (startup ext is_testing is_building environ c))
        = split_calls (final_state (split_registry_model ext s2))"
    unfolding startup_def
    by (simp add: env s2 chk2 calls_andthen calls_storage calls_secret calls_cookie)
  then show ?thesis
    by (simp add: split_registry_model_calls s2 calls)
qed

lemma startup_raises_when_check_raises:
  assumes env: "environ_override ext environ (initial_state c) = Inr s"
    and chk: "check_v3_upgrade_mode is_testing is_building s = Inl (e, s)"
  shows "\<exists>s'. startup ext is_testing is_building environ c = Inl (e, s') \<and> split_calls s' = []"
proof -
  obtain s2 where s2: "fix_remote_address s = Inr s2" "config s2 = config s"
    "split_calls s2 = split_calls s"
    using fix_remote_address_result by blast
  have calls: "split_calls s = []"
    using environ_override_calls [of ext environ "initial_state c"] env
    by (simp add: initial_state_def)
  have chk2: "check_v3_upgrade_mode is_testing is_building s2 = Inl (e, s2)"
    using chk s2(2) by (simp add: check_v3_upgrade_mode_def Let_def split: if_splits)
  have "startup ext is_testing is_building environ c = Inl (e, s2)"
    unfolding startup_def by (simp add: env s2 chk2)
  then show ?thesis using s2 calls by simp
qed


lemma startup_raises_when_split_raises:
  assumes env: "environ_override ext environ (initial_state c) = Inr s"
    and chk: "check_v3_upgrade_mode is_testing is_building s = Inr s"
    and rej: "setup_split ext (split_arguments (config s)) = Some e"
  shows "\<exists>s'. startup ext is_testing is_building environ c = Inl (e, s')
              \<and> split_calls s' = [split_arguments (config s)]"
proof -
  obtain s2 where s2: "fix_remote_address s = Inr s2" "config s2 = config s"
    "split_calls s2 = split_calls s"
    using fix_remote_address_result by blast
  have calls: "split_calls s = []"
    using environ_override_calls [of ext environ "initial_state c"] env
    by (simp add: initial_state_def)
  have chk2: "check_v3_upgrade_mode is_testing is_building s2 = Inr s2"
    using chk check_depends_on_config [OF s2(2)] by simp
  have spl: "split_registry_model ext s2
             = Inl (e, s2\<lparr>split_calls := split_calls s2 @ [split_arguments (config s)]\<rparr>)"
    using rej by (simp add: split_registry_model_def Let_def s2(2))
  have "startup ext is_testing is_building environ c
        = Inl (e, s2\<lparr>split_calls := split_calls s2 @ [split_arguments (config s)]\<rparr>)"
    unfolding startup_def by (simp add: env s2(1) chk2 spl)
  then show ?thesis using s2(3) calls by simp
qed

lemma check_outcomes:
  "check_v3_upgrade_mode t b s = Inr s \<or> (\<exists>e. check_v3_upgrade_mode t b s = Inl (e, s))"
  by (simp add: check_v3_upgrade_mode_def Let_def)

lemma out_of_range_truthy: "out_of_range v \<Longrightarrow> truthy v"
  by (cases v) auto

lemma check_accepts_iff:
  assumes "\<not> is_testing" and "\<not> is_building"
    and "truthy (config_get_default (config s) ''SETUP_COMPLETE'' (PyBool False))"
  shows "(check_v3_upgrade_mode is_testing is_building s = Inr s)
         = (config_get (config s) ''V3_UPGRADE_MODE''
              \<in> PyStr ` {''background'', ''complete'', ''production-transition'',
                          ''post-oci-rollout'', ''post-oci-roll-back-compat''})"
  using assms
  by (cases "config_get (config s) ''V3_UPGRADE_MODE''")
     (auto simp: check_v3_upgrade_mode_def ne_str_def Let_def)

lemma check_rejects:
  assumes "\<not> is_testing" and "\<not> is_building"
    and "truthy (config_get_default (config s) ''SETUP_COMPLETE'' (PyBool False))"
    and "config_get (config s) ''V3_UPGRADE_MODE''
              \<notin> PyStr ` {''background'', ''complete'', ''production-transition'',
                          ''post-oci-rollout'', ''post-oci-roll-back-compat''}"
  shows "check_v3_upgrade_mode is_testing is_building s
         = Inl (Exception (if config_get (config s) ''V3_UPGRADE_MODE'' = PyNone
                           then missing_mode_message else invalid_mode_message), s)"
  using assms
  by (cases "config_get (config s) ''V3_UPGRADE_MODE''")
     (auto simp: check_v3_upgrade_mode_def ne_str_def Let_def)

lemma sample_environ_override:
  "environ_override sample_externals Map.empty (initial_state c) = Inr (initial_state c)"
  by (simp add: environ_override_def sample_externals_def dict_update_def initial_state_def)

lemma startup_outcome_after_split:
  assumes env: "environ_override ext environ (initial_state c) = Inr s"
    and chk: "check_v3_upgrade_mode is_testing is_building s = Inr s"
    and quiet: "setup_split ext (split_arguments (config s)) = None"
  shows "case startup ext is_testing is_building environ c of
           Inr s' \<Rightarrow> True
         | Inl (e, s') \<Rightarrow> e = KeyError ''SECRET_KEY'' \<or> e = KeyError ''PREFERRED_URL_SCHEME''"
proof -
  obtain s2 where s2: "fix_remote_address s = Inr s2" "config s2 = config s"
    using fix_remote_address_result by blast
  have chk2: "check_v3_upgrade_mode is_testing is_building s2 = Inr s2"
    using chk check_depends_on_config [OF s2(2)] by simp
  show ?thesis
    unfolding startup_def
    by (simp add: env s2 chk2 quiet split_registry_model_def storage_preference_def
        secret_key_def session_cookie_def config_item_def Let_def
        split: option.splits)
qed

subsection \<open>The check of the upgrade mode\<close>

text \<open>
  Claim C1. When the process is neither testing nor building and \<^verbatim>\<open>SETUP_COMPLETE\<close> is true
  in the configuration \<open>s\<close> left by the environment override, the check accepts
  \<^verbatim>\<open>V3_UPGRADE_MODE\<close> exactly when it is one of the five tokens: then the script goes on and
  calls \<^verbatim>\<open>setup_split\<close> once, with that very token as the phase. Any other value makes the
  start-up raise an exception before \<^verbatim>\<open>setup_split\<close> is called, so an unknown token never
  reaches the split under another name.
\<close>

theorem v3_upgrade_mode_checked:
  assumes env: "environ_override ext environ (initial_state c) = Inr s"
    and mode: "\<not> is_testing" "\<not> is_building"
      "truthy (config_get_default (config s) ''SETUP_COMPLETE'' (PyBool False))"
  shows "(config_get (config s) ''V3_UPGRADE_MODE''
            \<in> PyStr ` {''background'', ''complete'', ''production-transition'',
                        ''post-oci-rollout'', ''post-oci-roll-back-compat''}
          \<longrightarrow> check_v3_upgrade_mode is_testing is_building s = Inr s
            \<and> split_calls (final_state (startup ext is_testing is_building environ c))
                = [split_arguments (config s)]
            \<and> snd (snd (snd (split_arguments (config s))))
                = config_get (config s) ''V3_UPGRADE_MODE'')
       \<and> (config_get (config s) ''V3_UPGRADE_MODE''
            \<notin> PyStr ` {''background'', ''complete'', ''production-transition'',
                        ''post-oci-rollout'', ''post-oci-roll-back-compat''}
          \<longrightarrow> (\<exists>s'. startup ext is_testing is_building environ c
                     = Inl (Exception (if config_get (config s) ''V3_UPGRADE_MODE'' = PyNone
                                       then missing_mode_message else invalid_mode_message), s')
                   \<and> split_calls s' = []))"
proof (intro conjI impI)
  assume ok: "config_get (config s) ''V3_UPGRADE_MODE''
            \<in> PyStr ` {''background'', ''complete'', ''production-transition'',
                        ''post-oci-rollout'', ''post-oci-roll-back-compat''}"
  then show chk: "check_v3_upgrade_mode is_testing is_building s = Inr s"
    using check_accepts_iff [OF mode] by simp
  show "split_calls (final_state (startup ext is_testing is_building environ c))
          = [split_arguments (config s)]"
    by (rule startup_calls_when_checked [OF env chk])
  show "snd (snd (snd (split_arguments (config s)))) = config_get (config s) ''V3_UPGRADE_MODE''"
    by (simp add: split_arguments_def)
next
  assume bad: "config_get (config s) ''V3_UPGRADE_MODE''
            \<notin> PyStr ` {''background'', ''complete'', ''production-transition'',
                        ''post-oci-rollout'', ''post-oci-roll-back-compat''}"
  show "\<exists>s'. startup ext is_testing is_building environ c
                     = Inl (Exception (if config_get (config s) ''V3_UPGRADE_MODE'' = PyNone
                                       then missing_mode_message else invalid_mode_message), s')
                   \<and> split_calls s' = []"
    by (rule startup_raises_when_check_raises [OF env check_rejects [OF mode bad]])
qed

theorem v3_upgrade_mode_checked_witness:
  "split_calls (final_state (startup sample_externals False False Map.empty
       [''SETUP_COMPLETE'' \<mapsto> PyBool True, ''V3_UPGRADE_MODE'' \<mapsto> PyStr ''post-oci-rollout'']))
     = [(PyInt 0, PySet [], PySet [], PyStr ''post-oci-rollout'')]
   \<and> (\<exists>s'. startup sample_externals False False Map.empty
          [''SETUP_COMPLETE'' \<mapsto> PyBool True, ''V3_UPGRADE_MODE'' \<mapsto> PyStr ''v3'']
        = Inl (Exception invalid_mode_message, s') \<and> split_calls s' = [])"
proof -
  let ?a = "[''SETUP_COMPLETE'' \<mapsto> PyBool True, ''V3_UPGRADE_MODE'' \<mapsto> PyStr ''post-oci-rollout'']"
  let ?b = "[''SETUP_COMPLETE'' \<mapsto> PyBool True, ''V3_UPGRADE_MODE'' \<mapsto> PyStr ''v3'']"
  have ta: "truthy (config_get_default (config (initial_state ?a)) ''SETUP_COMPLETE'' (PyBool False))"
    by (simp add: initial_state_def config_get_default_def)
  have tb: "truthy (config_get_default (config (initial_state ?b)) ''SETUP_COMPLETE'' (PyBool False))"
    by (simp add: initial_state_def config_get_default_def)
  have na: "\<not> False" by simp
  note A = v3_upgrade_mode_checked [OF sample_environ_override na na ta]
  note B = v3_upgrade_mode_checked [OF sample_environ_override na na tb]
  from A have "split_calls (final_state (startup sample_externals False False Map.empty ?a))
     = [(PyInt 0, PySet [], PySet [], PyStr ''post-oci-rollout'')]"
    by (simp add: initial_state_def config_get_def split_arguments_def py_or_def)
  moreover from B have "\<exists>s'. startup sample_externals False False Map.empty ?b
        = Inl (Exception invalid_mode_message, s') \<and> split_calls s' = []"
    by (simp add: initial_state_def config_get_def)
  ultimately show ?thesis by simp
qed

text \<open>
  Claim C2. In the same mode, a \<^verbatim>\<open>V3_UPGRADE_MODE\<close> that is absent or \<^verbatim>\<open>None\<close> ends the
  start-up with the exception "must be set", raised while no call of \<^verbatim>\<open>setup_split\<close> has
  been made.
\<close>

theorem missing_upgrade_mode_is_fatal:
  assumes env: "environ_override ext environ (initial_state c) = Inr s"
    and mode: "\<not> is_testing" "\<not> is_building"
      "truthy (config_get_default (config s) ''SETUP_COMPLETE'' (PyBool False))"
    and none: "config_get (config s) ''V3_UPGRADE_MODE'' = PyNone"
  shows "\<exists>s'. startup ext is_testing is_building environ c
                 = Inl (Exception missing_mode_message, s')
               \<and> split_calls s' = []"
proof -
  have "check_v3_upgrade_mode is_testing is_building s = Inl (Exception missing_mode_message, s)"
    using mode none by (simp add: check_v3_upgrade_mode_def)
  then show ?thesis
    by (rule startup_raises_when_check_raises [OF env])
qed

theorem missing_upgrade_mode_is_fatal_witness:
  "\<exists>s'. startup sample_externals False False Map.empty [''SETUP_COMPLETE'' \<mapsto> PyBool True]
          = Inl (Exception missing_mode_message, s')
        \<and> split_calls s' = []"
proof -
  let ?c = "[''SETUP_COMPLETE'' \<mapsto> PyBool True]"
  have t: "truthy (config_get_default (config (initial_state ?c)) ''SETUP_COMPLETE'' (PyBool False))"
    by (simp add: initial_state_def config_get_default_def)
  have n: "config_get (config (initial_state ?c)) ''V3_UPGRADE_MODE'' = PyNone"
    by (simp add: initial_state_def config_get_def)
  have f: "\<not> False" by simp
  show ?thesis
    by (rule missing_upgrade_mode_is_fatal [OF sample_environ_override f f t n])
qed

text \<open>
  Claim C8. When the process is testing or building, or \<^verbatim>\<open>SETUP_COMPLETE\<close> is not true, the
  check lets every \<^verbatim>\<open>V3_UPGRADE_MODE\<close> through, \<^verbatim>\<open>None\<close> and unknown strings included: the
  script calls \<^verbatim>\<open>setup_split\<close> with the configured value as it is, and if that call returns
  normally the only exceptions left to the script are the key errors of the two later
  subscript reads.
\<close>

theorem upgrade_mode_unchecked_elsewhere:
  assumes env: "environ_override ext environ (initial_state c) = Inr s"
    and mode: "is_testing \<or> is_building
               \<or> \<not> truthy (config_get_default (config s) ''SETUP_COMPLETE'' (PyBool False))"
  shows "check_v3_upgrade_mode is_testing is_building s = Inr s
       \<and> split_calls (final_state (startup ext is_testing is_building environ c))
           = [split_arguments (config s)]
       \<and> snd (snd (snd (split_arguments (config s)))) = config_get (config s) ''V3_UPGRADE_MODE''
       \<and> (setup_split ext (split_arguments (config s)) = None \<longrightarrow>
            (case startup ext is_testing is_building environ c of
               Inr s' \<Rightarrow> True
             | Inl (e, s') \<Rightarrow> e = KeyError ''SECRET_KEY'' \<or> e = KeyError ''PREFERRED_URL_SCHEME''))"
proof -
  have chk: "check_v3_upgrade_mode is_testing is_building s = Inr s"
    using mode by (auto simp: check_v3_upgrade_mode_def)
  show ?thesis
    using chk startup_calls_when_checked [OF env chk] startup_outcome_after_split [OF env chk]
    by (simp add: split_arguments_def)
qed

theorem upgrade_mode_unchecked_elsewhere_witness:
  "split_calls (final_state (startup sample_externals True False Map.empty
       [''SETUP_COMPLETE'' \<mapsto> PyBool True, ''V3_UPGRADE_MODE'' \<mapsto> PyStr ''v3'']))
     = [(PyInt 0, PySet [], PySet [], PyStr ''v3'')]
   \<and> split_calls (final_state (startup sample_externals False False Map.empty Map.empty))
     = [(PyInt 0, PySet [], PySet [], PyNone)]
   \<and> (case startup sample_externals False False Map.empty Map.empty of
         Inr s' \<Rightarrow> True
       | Inl (e, s') \<Rightarrow> e = KeyError ''SECRET_KEY'' \<or> e = KeyError ''PREFERRED_URL_SCHEME'')"
proof -
  let ?a = "[''SETUP_COMPLETE'' \<mapsto> PyBool True, ''V3_UPGRADE_MODE'' \<mapsto> PyStr ''v3'']"
  have ma: "True \<or> False
     \<or> \<not> truthy (config_get_default (config (initial_state ?a)) ''SETUP_COMPLETE'' (PyBool False))"
    by simp
  have mb: "False \<or> False
     \<or> \<not> truthy (config_get_default (config (initial_state Map.empty)) ''SETUP_COMPLETE'' (PyBool False))"
    by (simp add: initial_state_def config_get_default_def)
  have q: "setup_split sample_externals (split_arguments (config (initial_state Map.empty))) = None"
    by (simp add: sample_externals_def)
  note A = upgrade_mode_unchecked_elsewhere [OF sample_environ_override ma]
  note B = upgrade_mode_unchecked_elsewhere [OF sample_environ_override mb]
  from A have "split_calls (final_state (startup sample_externals True False Map.empty ?a))
     = [(PyInt 0, PySet [], PySet [], PyStr ''v3'')]"
    by (simp add: initial_state_def config_get_def split_arguments_def py_or_def)
  moreover from B have "split_calls (final_state (startup sample_externals False False Map.empty Map.empty))
     = [(PyInt 0, PySet [], PySet [], PyNone)]"
    by (simp add: initial_state_def config_get_def split_arguments_def py_or_def)
  moreover from B q have "case startup sample_externals False False Map.empty Map.empty of
         Inr s' \<Rightarrow> True
       | Inl (e, s') \<Rightarrow> e = KeyError ''SECRET_KEY'' \<or> e = KeyError ''PREFERRED_URL_SCHEME''"
    by blast
  ultimately show ?thesis by simp
qed

subsection \<open>The override from the environment\<close>

lemma fold_store_items:
  "fold (\<lambda>(k, x) m. m(k \<mapsto> x)) kvs (c :: app_config) = c ++ map_of (rev kvs)"
proof (induction kvs arbitrary: c)
  case Nil
  show ?case by simp
next
  case (Cons a kvs)
  obtain k x where a: "a = (k, x)" by (cases a)
  have "(c(k \<mapsto> x) ++ m) j = (c ++ ([k \<mapsto> x] ++ m)) j" for m :: app_config and j
    by (simp add: map_add_def split: option.splits)
  then have step: "c(k \<mapsto> x) ++ map_of (rev kvs) = c ++ ([k \<mapsto> x] ++ map_of (rev kvs))"
    by (intro ext)
  have "fold (\<lambda>(k, x) m. m(k \<mapsto> x)) (a # kvs) c
        = fold (\<lambda>(k, x) m. m(k \<mapsto> x)) kvs (c(k \<mapsto> x))"
    by (simp only: a fold_simps prod.case)
  also have "\<dots> = c(k \<mapsto> x) ++ map_of (rev kvs)"
    by (rule Cons.IH)
  also have "\<dots> = c ++ ([k \<mapsto> x] ++ map_of (rev kvs))"
    by (rule step)
  also have "[k \<mapsto> x] ++ map_of (rev kvs) = map_of (rev (a # kvs))"
    by (simp add: a)
  finally show ?case .
qed

text \<open>
  Claim C9. With the environment variable \<^verbatim>\<open>QUAY_OVERRIDE_CONFIG\<close> unset the script merges what \<^verbatim>\<open>json.loads("{}")\<close>
  gives, the empty object, and the state is unchanged. With the variable set to the text of a
  JSON object, the configuration afterwards is the previous one overridden by the members of
  the object: a key of the object holds the object's value, every other key holds what it
  held before, and nothing else of the state changes. The step runs on the configuration
  that the file-based loading has produced, so the environment wins.
\<close>

theorem environ_override_frame:
  "(environ ''QUAY_OVERRIDE_CONFIG'' = None \<and> json_loads ext ''{}'' = Inr (PyDict [])
      \<longrightarrow> environ_override ext environ s = Inr s)
   \<and> (environ ''QUAY_OVERRIDE_CONFIG'' = Some t \<and> json_loads ext t = Inr (PyDict kvs)
      \<longrightarrow> (\<exists>s'. environ_override ext environ s = Inr s'
             \<and> config s' = config s ++ map_of (rev kvs)
             \<and> (\<forall>k. k \<notin> fst ` set kvs \<longrightarrow> config s' k = config s k)
             \<and> (\<forall>k v. map_of (rev kvs) k = Some v \<longrightarrow> config s' k = Some v)
             \<and> proxy_fix s' = proxy_fix s \<and> split_calls s' = split_calls s))"
proof (intro conjI impI)
  assume "environ ''QUAY_OVERRIDE_CONFIG'' = None \<and> json_loads ext ''{}'' = Inr (PyDict [])"
  then show "environ_override ext environ s = Inr s"
    by (simp add: environ_override_def OVERRIDE_CONFIG_KEY_def dict_update_def)
next
  assume a: "environ ''QUAY_OVERRIDE_CONFIG'' = Some t \<and> json_loads ext t = Inr (PyDict kvs)"
  let ?s' = "s\<lparr>config := config s ++ map_of (rev kvs)\<rparr>"
  have run: "environ_override ext environ s = Inr ?s'"
    using a by (simp add: environ_override_def OVERRIDE_CONFIG_KEY_def dict_update_def fold_store_items)
  have frame: "\<forall>k. k \<notin> fst ` set kvs \<longrightarrow> config ?s' k = config s k"
    by (simp add: map_add_def map_of_eq_None_iff [THEN iffD2] split: option.splits)
  have over: "\<forall>k v. map_of (rev kvs) k = Some v \<longrightarrow> config ?s' k = Some v"
    by (simp add: map_add_def)
  show "\<exists>s'. environ_override ext environ s = Inr s'
             \<and> config s' = config s ++ map_of (rev kvs)
             \<and> (\<forall>k. k \<notin> fst ` set kvs \<longrightarrow> config s' k = config s k)
             \<and> (\<forall>k v. map_of (rev kvs) k = Some v \<longrightarrow> config s' k = Some v)
             \<and> proxy_fix s' = proxy_fix s \<and> split_calls s' = split_calls s"
    using run frame over by (intro exI [of _ ?s']) simp
qed


theorem environ_override_frame_witness:
  "environ_override sample_externals Map.empty
       (initial_state [''PROXY_COUNT'' \<mapsto> PyInt 2, ''SECRET_KEY'' \<mapsto> PyStr ''k''])
     = Inr (initial_state [''PROXY_COUNT'' \<mapsto> PyInt 2, ''SECRET_KEY'' \<mapsto> PyStr ''k''])
   \<and> (\<exists>s'. environ_override sample_externals [''QUAY_OVERRIDE_CONFIG'' \<mapsto> sample_override_text]
               (initial_state [''PROXY_COUNT'' \<mapsto> PyInt 2, ''SECRET_KEY'' \<mapsto> PyStr ''k''])
             = Inr s'
           \<and> config s' ''PROXY_COUNT'' = Some (PyInt 0)
           \<and> config s' ''SECRET_KEY'' = Some (PyStr ''k''))"
proof -
  let ?s = "initial_state [''PROXY_COUNT'' \<mapsto> PyInt 2, ''SECRET_KEY'' \<mapsto> PyStr ''k'']"
  let ?env = "[''QUAY_OVERRIDE_CONFIG'' \<mapsto> sample_override_text] :: string \<rightharpoonup> string"
  have unset: "(Map.empty :: string \<rightharpoonup> string) ''QUAY_OVERRIDE_CONFIG'' = None
               \<and> json_loads sample_externals ''{}'' = Inr (PyDict [])"
    by (simp add: sample_externals_def)
  have given: "?env ''QUAY_OVERRIDE_CONFIG'' = Some sample_override_text
               \<and> json_loads sample_externals sample_override_text
                 = Inr (PyDict [(''PROXY_COUNT'', PyInt 0)])"
    by (simp add: sample_externals_def sample_override_text_def)
  from unset environ_override_frame [where environ = Map.empty and ext = sample_externals and s = ?s]
  have "environ_override sample_externals Map.empty ?s = Inr ?s"
    by blast
  moreover
  from given environ_override_frame [where environ = ?env and ext = sample_externals
      and t = sample_override_text and kvs = "[(''PROXY_COUNT'', PyInt 0)]" and s = ?s]
  obtain s' where s': "environ_override sample_externals ?env ?s = Inr s'"
      "config s' = config ?s ++ map_of (rev [(''PROXY_COUNT'', PyInt 0)])"
    by blast
  have "config s' ''PROXY_COUNT'' = Some (PyInt 0) \<and> config s' ''SECRET_KEY'' = Some (PyStr ''k'')"
    by (simp add: s'(2) initial_state_def map_add_def)
  ultimately show ?thesis using s'(1) by blast
qed

subsection \<open>The secret key\<close>

lemma andthen_eq_Inr:
  "(andthen r f = Inr s') = (\<exists>s. r = Inr s \<and> f s = Inr s')"
  by (cases r) auto

lemma secret_key_result:
  assumes "secret_key ext s = Inr s'"
  shows "config s' = (if config s ''SECRET_KEY'' = Some PyNone
                      then (config s)(''SECRET_KEY'' \<mapsto> generate_secret_key ext) else config s)
         \<and> config s ''SECRET_KEY'' \<noteq> None"
  using assms
  by (auto simp: secret_key_def config_item_def split: option.splits if_splits)

lemma session_cookie_keeps_key:
  assumes "session_cookie s = Inr s'"
  shows "config s' ''SECRET_KEY'' = config s ''SECRET_KEY''"
  using assms
  by (auto simp: session_cookie_def config_item_def split: option.splits if_splits)

lemma storage_preference_keeps_key:
  assumes "storage_preference environ s = Inr s'"
  shows "config s' ''SECRET_KEY'' = config s ''SECRET_KEY''"
  using assms
  by (auto simp: storage_preference_def Let_def split: if_splits)

lemma split_registry_model_keeps_config:
  assumes "split_registry_model ext s = Inr s'"
  shows "config s' = config s"
  using assms
  by (auto simp: split_registry_model_def Let_def split: option.splits)

lemma check_keeps_state:
  assumes "check_v3_upgrade_mode t b s = Inr s'"
  shows "s' = s"
  using assms
  by (auto simp: check_v3_upgrade_mode_def Let_def split: if_splits)

lemma sample_startup_generates_key:
  "startup sample_externals True False Map.empty
       [''SECRET_KEY'' \<mapsto> PyNone, ''PREFERRED_URL_SCHEME'' \<mapsto> PyStr ''http'']
   = Inr \<lparr>config = [''SECRET_KEY'' \<mapsto> PyNone, ''PREFERRED_URL_SCHEME'' \<mapsto> PyStr ''http'']
                     (''SECRET_KEY'' \<mapsto> PyStr ''generated-in-memory''),
          proxy_fix = Some (PyInt 1),
          split_calls = [(PyInt 0, PySet [], PySet [], PyNone)]\<rparr>"
  unfolding startup_def
  by (simp add: sample_environ_override)
     (simp add: initial_state_def fix_remote_address_def config_get_default_def
        check_v3_upgrade_mode_def split_registry_model_def split_arguments_def config_get_def
        py_or_def sample_externals_def storage_preference_def py_split_def secret_key_def
        config_item_def session_cookie_def)

text \<open>
  Claim C10. When the script completes, \<^verbatim>\<open>SECRET_KEY\<close> is present in the configuration
  and is not \<^verbatim>\<open>None\<close>, given that \<^verbatim>\<open>generate_secret_key()\<close> does not return \<^verbatim>\<open>None\<close>: it is
  the generated key when the loaded configuration held \<^verbatim>\<open>None\<close>, and the loaded value
  otherwise.
\<close>

theorem secret_key_installed:
  assumes fin: "startup ext is_testing is_building environ c = Inr s'"
    and key: "generate_secret_key ext \<noteq> PyNone"
  shows "\<exists>s v. environ_override ext environ (initial_state c) = Inr s
            \<and> config s' ''SECRET_KEY'' = Some v \<and> v \<noteq> PyNone
            \<and> v = (if config s ''SECRET_KEY'' = Some PyNone then generate_secret_key ext
                   else config_get (config s) ''SECRET_KEY'')"
proof -
  from fin obtain s1 s2 s3 s4 s5 s6 where
    env: "environ_override ext environ (initial_state c) = Inr s1"
    and prx: "fix_remote_address s1 = Inr s2"
    and chk: "check_v3_upgrade_mode is_testing is_building s2 = Inr s3"
    and spl: "split_registry_model ext s3 = Inr s4"
    and sto: "storage_preference environ s4 = Inr s5"
    and sec: "secret_key ext s5 = Inr s6"
    and coo: "session_cookie s6 = Inr s'"
    unfolding startup_def andthen_eq_Inr by blast
  have c2: "config s2 = config s1"
    using prx fix_remote_address_result [of s1] by auto
  have c4: "config s4 = config s1"
    using split_registry_model_keeps_config [OF spl] check_keeps_state [OF chk] c2 by simp
  have k5: "config s5 ''SECRET_KEY'' = config s1 ''SECRET_KEY''"
    using storage_preference_keeps_key [OF sto] c4 by simp
  have k': "config s' ''SECRET_KEY'' = config s6 ''SECRET_KEY''"
    by (rule session_cookie_keeps_key [OF coo])
  from secret_key_result [OF sec] k5 obtain w where w: "config s1 ''SECRET_KEY'' = Some w"
    by auto
  have "config s6 ''SECRET_KEY''
        = Some (if w = PyNone then generate_secret_key ext else w)"
    using secret_key_result [OF sec] k5 w by auto
  then have "config s' ''SECRET_KEY''
        = Some (if config s1 ''SECRET_KEY'' = Some PyNone then generate_secret_key ext
                else config_get (config s1) ''SECRET_KEY'')"
    using k' w by (simp add: config_get_def)
  moreover have "(if config s1 ''SECRET_KEY'' = Some PyNone then generate_secret_key ext
                else config_get (config s1) ''SECRET_KEY'') \<noteq> PyNone"
    using key w by (simp add: config_get_def)
  ultimately show ?thesis using env by blast
qed

theorem secret_key_installed_witness:
  "config (final_state (startup sample_externals True False Map.empty
       [''SECRET_KEY'' \<mapsto> PyNone, ''PREFERRED_URL_SCHEME'' \<mapsto> PyStr ''http'']))
     ''SECRET_KEY'' = Some (PyStr ''generated-in-memory'')"
proof -
  have key: "generate_secret_key sample_externals \<noteq> PyNone"
    by (simp add: sample_externals_def)
  from secret_key_installed [OF sample_startup_generates_key key]
  show ?thesis
    by (simp add: sample_startup_generates_key)
qed

subsection \<open>The arguments of the split\<close>

lemma sample_startup_background:
  "startup sample_externals False False Map.empty
       [''SETUP_COMPLETE'' \<mapsto> PyBool True, ''V3_UPGRADE_MODE'' \<mapsto> PyStr ''background'',
        ''SECRET_KEY'' \<mapsto> PyStr ''k'', ''PREFERRED_URL_SCHEME'' \<mapsto> PyStr ''http'']
   = Inr \<lparr>config = [''SETUP_COMPLETE'' \<mapsto> PyBool True,
                     ''V3_UPGRADE_MODE'' \<mapsto> PyStr ''background'',
                     ''SECRET_KEY'' \<mapsto> PyStr ''k'', ''PREFERRED_URL_SCHEME'' \<mapsto> PyStr ''http''],
          proxy_fix = Some (PyInt 1),
          split_calls = [(PyInt 0, PySet [], PySet [], PyStr ''background'')]\<rparr>"
  unfolding startup_def
  by (simp add: sample_environ_override)
     (simp add: initial_state_def fix_remote_address_def config_get_default_def
        check_v3_upgrade_mode_def split_registry_model_def split_arguments_def config_get_def
        py_or_def sample_externals_def storage_preference_def py_split_def secret_key_def
        config_item_def session_cookie_def ne_str_def)

lemma validating_environ_override:
  "environ_override validating_externals Map.empty (initial_state c) = Inr (initial_state c)"
  by (simp add: environ_override_def validating_externals_def sample_externals_def
      dict_update_def initial_state_def)

lemma validating_rejects: "rejects_out_of_range validating_externals"
  by (simp add: rejects_out_of_range_def validating_externals_def)

text \<open>
  Claim C7. When \<^verbatim>\<open>OCI_NAMESPACE_PROPORTION\<close>, \<^verbatim>\<open>OCI_NAMESPACE_WHITELIST\<close> and
  \<^verbatim>\<open>V22_NAMESPACE_WHITELIST\<close> are absent or \<^verbatim>\<open>None\<close> in the configuration left by the
  environment override, every start-up that completes has called \<^verbatim>\<open>setup_split\<close> exactly
  once, with proportion 0 and two empty sets, the phase being the configured
  \<^verbatim>\<open>V3_UPGRADE_MODE\<close>: the split is set up before the process serves anything.
\<close>

theorem split_when_keys_absent:
  assumes fin: "startup ext is_testing is_building environ c = Inr s'"
    and env: "environ_override ext environ (initial_state c) = Inr s"
    and absent: "config_get (config s) ''OCI_NAMESPACE_PROPORTION'' = PyNone"
      "config_get (config s) ''OCI_NAMESPACE_WHITELIST'' = PyNone"
      "config_get (config s) ''V22_NAMESPACE_WHITELIST'' = PyNone"
  shows "split_calls s'
         = [(PyInt 0, PySet [], PySet [], config_get (config s) ''V3_UPGRADE_MODE'')]"
proof -
  have "\<not> (\<exists>e. check_v3_upgrade_mode is_testing is_building s = Inl (e, s))"
    using startup_raises_when_check_raises [OF env] fin by fastforce
  then have chk: "check_v3_upgrade_mode is_testing is_building s = Inr s"
    using check_outcomes [of is_testing is_building s] by blast
  have "split_calls (final_state (startup ext is_testing is_building environ c))
        = [split_arguments (config s)]"
    by (rule startup_calls_when_checked [OF env chk])
  then show ?thesis
    using absent by (simp add: fin split_arguments_def py_or_def)
qed

theorem split_when_keys_absent_witness:
  "split_calls (final_state (startup sample_externals False False Map.empty
       [''SETUP_COMPLETE'' \<mapsto> PyBool True, ''V3_UPGRADE_MODE'' \<mapsto> PyStr ''background'',
        ''SECRET_KEY'' \<mapsto> PyStr ''k'', ''PREFERRED_URL_SCHEME'' \<mapsto> PyStr ''http'']))
   = [(PyInt 0, PySet [], PySet [], PyStr ''background'')]"
proof -
  let ?c = "[''SETUP_COMPLETE'' \<mapsto> PyBool True, ''V3_UPGRADE_MODE'' \<mapsto> PyStr ''background'',
        ''SECRET_KEY'' \<mapsto> PyStr ''k'', ''PREFERRED_URL_SCHEME'' \<mapsto> PyStr ''http'']"
  have a: "config_get (config (initial_state ?c)) ''OCI_NAMESPACE_PROPORTION'' = PyNone"
    and b: "config_get (config (initial_state ?c)) ''OCI_NAMESPACE_WHITELIST'' = PyNone"
    and d: "config_get (config (initial_state ?c)) ''V22_NAMESPACE_WHITELIST'' = PyNone"
    by (simp_all add: initial_state_def config_get_def)
  from split_when_keys_absent [OF sample_startup_background sample_environ_override a b d]
  show ?thesis
    by (simp add: sample_startup_background initial_state_def config_get_def)
qed

text \<open>
  Claim C3. The script hands the configured \<^verbatim>\<open>OCI_NAMESPACE_PROPORTION\<close> on as it is: a
  value outside [0,1] is the first argument of \<^verbatim>\<open>setup_split\<close>, not a clamped one. With a
  \<^verbatim>\<open>setup_split\<close> that rejects such a proportion at construction, as the specification
  says, no start-up completes: if the check of the upgrade mode passes, the start-up ends
  with the exception \<^verbatim>\<open>setup_split\<close> raised on the unchanged value, and otherwise it has
  ended before \<^verbatim>\<open>setup_split\<close> was called.
\<close>

theorem out_of_range_proportion_rejected:
  assumes env: "environ_override ext environ (initial_state c) = Inr s"
    and out: "out_of_range (config_get (config s) ''OCI_NAMESPACE_PROPORTION'')"
    and spec: "rejects_out_of_range ext"
  shows "isl (startup ext is_testing is_building environ c)
       \<and> fst (split_arguments (config s)) = config_get (config s) ''OCI_NAMESPACE_PROPORTION''
       \<and> (check_v3_upgrade_mode is_testing is_building s = Inr s \<longrightarrow>
            (\<exists>e s'. startup ext is_testing is_building environ c = Inl (e, s')
                 \<and> setup_split ext (split_arguments (config s)) = Some e
                 \<and> split_calls s' = [split_arguments (config s)]))
       \<and> (check_v3_upgrade_mode is_testing is_building s \<noteq> Inr s \<longrightarrow>
            split_calls (final_state (startup ext is_testing is_building environ c)) = [])"
proof -
  have arg: "fst (split_arguments (config s)) = config_get (config s) ''OCI_NAMESPACE_PROPORTION''"
    using out_of_range_truthy [OF out] by (simp add: split_arguments_def py_or_def)
  have "setup_split ext (split_arguments (config s)) \<noteq> None"
    using spec out arg
    by (cases "split_arguments (config s)") (auto simp: rejects_out_of_range_def)
  then obtain e where e: "setup_split ext (split_arguments (config s)) = Some e"
    by blast
  have passed: "\<exists>e s'. startup ext is_testing is_building environ c = Inl (e, s')
                 \<and> setup_split ext (split_arguments (config s)) = Some e
                 \<and> split_calls s' = [split_arguments (config s)]"
    if chk: "check_v3_upgrade_mode is_testing is_building s = Inr s"
    using startup_raises_when_split_raises [OF env chk e] e by blast
  have stopped: "isl (startup ext is_testing is_building environ c)
      \<and> split_calls (final_state (startup ext is_testing is_building environ c)) = []"
    if nchk: "check_v3_upgrade_mode is_testing is_building s \<noteq> Inr s"
  proof -
    from nchk check_outcomes [of is_testing is_building s]
    obtain x where "check_v3_upgrade_mode is_testing is_building s = Inl (x, s)"
      by blast
    from startup_raises_when_check_raises [OF env this] show ?thesis
      by auto
  qed
  have "isl (startup ext is_testing is_building environ c)"
    using passed stopped by (cases "check_v3_upgrade_mode is_testing is_building s = Inr s") auto
  then show ?thesis
    using arg passed stopped by blast
qed

theorem out_of_range_proportion_rejected_witness:
  "(\<exists>s'. startup validating_externals True False Map.empty
           [''OCI_NAMESPACE_PROPORTION'' \<mapsto> PyFloat (3 / 2)]
         = Inl (Exception ''ConfigurationError'', s')
       \<and> split_calls s' = [(PyFloat (3 / 2), PySet [], PySet [], PyNone)])
   \<and> isl (startup validating_externals False False Map.empty
            [''SETUP_COMPLETE'' \<mapsto> PyBool True, ''OCI_NAMESPACE_PROPORTION'' \<mapsto> PyInt 5])
   \<and> split_calls (final_state (startup validating_externals False False Map.empty
            [''SETUP_COMPLETE'' \<mapsto> PyBool True, ''OCI_NAMESPACE_PROPORTION'' \<mapsto> PyInt 5])) = []"
proof -
  let ?c = "[''OCI_NAMESPACE_PROPORTION'' \<mapsto> PyFloat (3 / 2)]"
  let ?d = "[''SETUP_COMPLETE'' \<mapsto> PyBool True, ''OCI_NAMESPACE_PROPORTION'' \<mapsto> PyInt 5]"
  have nchk: "check_v3_upgrade_mode False False (initial_state ?d) \<noteq> Inr (initial_state ?d)"
    by (simp add: check_v3_upgrade_mode_def initial_state_def config_get_default_def
        config_get_def)
  have outd: "out_of_range (config_get (config (initial_state ?d)) ''OCI_NAMESPACE_PROPORTION'')"
    by (simp add: initial_state_def config_get_def)
  from out_of_range_proportion_rejected [OF validating_environ_override outd validating_rejects,
      of False False] nchk
  have second: "isl (startup validating_externals False False Map.empty ?d)
      \<and> split_calls (final_state (startup validating_externals False False Map.empty ?d)) = []"
    by blast
  have chk: "check_v3_upgrade_mode True False (initial_state ?c) = Inr (initial_state ?c)"
    by (simp add: check_v3_upgrade_mode_def)
  have out: "out_of_range (config_get (config (initial_state ?c)) ''OCI_NAMESPACE_PROPORTION'')"
    by (simp add: initial_state_def config_get_def)
  have args: "split_arguments (config (initial_state ?c))
              = (PyFloat (3 / 2), PySet [], PySet [], PyNone)"
    by (simp add: split_arguments_def initial_state_def config_get_def py_or_def)
  from out_of_range_proportion_rejected [OF validating_environ_override out validating_rejects,
      of True False] chk
  obtain e s' where run: "startup validating_externals True False Map.empty ?c = Inl (e, s')"
    and e: "setup_split validating_externals (split_arguments (config (initial_state ?c))) = Some e"
    and calls: "split_calls s' = [split_arguments (config (initial_state ?c))]"
    by blast
  from e have "e = Exception ''ConfigurationError''"
    by (simp add: args validating_externals_def)
  with run calls args second show ?thesis by simp
qed

section \<open>Properties of the routing controller\<close>

text \<open>
  Claim C4. A reload is checked against the current phase. From \<open>Complete\<close> to
  \<open>ProductionTransition\<close> it fails with a configuration error and the snapshot in phase
  \<open>Complete\<close> stays active; from \<open>Background\<close> to \<open>RollbackCompat\<close> it succeeds; from
  \<open>RollbackCompat\<close> to \<open>ProductionTransition\<close> it succeeds; from \<open>RollbackCompat\<close> to
  \<open>PostCutoverRollout\<close> it fails. Every phase may go to \<open>RollbackCompat\<close>, the only way
  out of \<open>RollbackCompat\<close> is to \<open>ProductionTransition\<close>, each of the six backward steps
  along the chain is illegal, and a reload installs the new snapshot when the transition is
  legal and keeps the previous one, with a configuration error, when it is not.
\<close>

theorem reload_transition_legality:
  "reload (cur\<lparr>phase := Complete\<rparr>) pol ProductionTransition
     = (Some ConfigurationError, cur\<lparr>phase := Complete\<rparr>)
   \<and> reload (cur\<lparr>phase := Background\<rparr>) pol RollbackCompat
     = (None, \<lparr>policy = pol, phase = RollbackCompat, prior = Background\<rparr>)
   \<and> reload (cur\<lparr>phase := RollbackCompat\<rparr>) pol ProductionTransition
     = (None, \<lparr>policy = pol, phase = ProductionTransition, prior = ProductionTransition\<rparr>)
   \<and> reload (cur\<lparr>phase := RollbackCompat\<rparr>) pol PostCutoverRollout
     = (Some ConfigurationError, cur\<lparr>phase := RollbackCompat\<rparr>)
   \<and> legal_transition a RollbackCompat
   \<and> legal_transition RollbackCompat b = (b = ProductionTransition \<or> b = RollbackCompat)
   \<and> \<not> legal_transition ProductionTransition Background
   \<and> \<not> legal_transition PostCutoverRollout Background
   \<and> \<not> legal_transition PostCutoverRollout ProductionTransition
   \<and> \<not> legal_transition Complete Background
   \<and> \<not> legal_transition Complete ProductionTransition
   \<and> \<not> legal_transition Complete PostCutoverRollout
   \<and> reload snap pol b
     = (if legal_transition (phase snap) b
        then (None, \<lparr>policy = pol, phase = b,
                     prior = (if b = RollbackCompat
                              then (if phase snap = RollbackCompat then prior snap else phase snap)
                              else b)\<rparr>)
        else (Some ConfigurationError, snap))"
  by (cases b) (simp_all add: reload_def)

text \<open>
  Claim C5. In phase \<open>Complete\<close> every tenant is routed to \<open>Modern\<close> as primary, with no
  second write, whatever the policy: also with proportion 0 and both allow-lists empty.
\<close>

theorem complete_routes_modern:
  "primary (route bucket (snap\<lparr>phase := Complete\<rparr>) t) = Modern
   \<and> secondary (route bucket (snap\<lparr>phase := Complete\<rparr>) t) = None
   \<and> primary (route bucket
        \<lparr>policy = \<lparr>proportion = 0, modernOverrides = {}, secondarySchemaOverrides = {}\<rparr>,
         phase = Complete, prior = pr\<rparr> t) = Modern"
  by (simp add: route_def)

text \<open>
  Claim C6. A tenant in \<open>modernOverrides\<close> is decided \<open>Modern\<close>, for every proportion (so
  for every proportion between 0 and 1) and every bucket of the classifier.
\<close>

theorem modern_overrides_win:
  "t \<in> modernOverrides p \<Longrightarrow> decide bucket p t = Modern"
  by (simp add: decide_def)

theorem modern_overrides_win_witness:
  "decide (\<lambda>t. 1 / 2)
     \<lparr>proportion = 0, modernOverrides = {''beta''}, secondarySchemaOverrides = {}\<rparr> ''beta''
   = Modern"
proof -
  have "''beta'' \<in> modernOverrides
      \<lparr>proportion = 0, modernOverrides = {''beta''}, secondarySchemaOverrides = {}\<rparr>"
    by simp
  then show ?thesis by (rule modern_overrides_win)
qed

end
